theory Spec2Isabelle
  imports Main
begin

section \<open>Python values, exceptions and the operators the handlers use\<close>

text \<open>
  The handlers of \<^verbatim>\<open>api/index.py\<close> work on parsed JSON: the request body and
  the answers of the catalog client and of the extraction tool. A value is \<open>None\<close>,
  a boolean, an integer, a string, a list or a dictionary with string keys (an
  association list, looked up with \<open>map_of\<close>). JSON numbers with a fraction are
  not part of the model.
\<close>

datatype pyval =
    PNone
  | PBool bool
  | PInt int
  | PStr string
  | PList "pyval list"
  | PDict "(string \<times> pyval) list"

text \<open>
  An exception is a value: \<open>Inl e\<close> is "raised \<open>e\<close>", \<open>Inr v\<close> is "returned \<open>v\<close>".
  \<open>CollaboratorError\<close> stands for whatever the catalog client or the extraction
  tool raises (network failure, not found, malformed identifier).
\<close>

datatype exn =
    KeyError
  | IndexError
  | TypeError
  | AttributeError
  | ZeroDivisionError
  | FileNotFoundError
  | CollaboratorError

definition then_do :: "exn + 'a \<Rightarrow> ('a \<Rightarrow> exn + 'b) \<Rightarrow> exn + 'b" where
  "then_do m f = (case m of Inl e \<Rightarrow> Inl e | Inr x \<Rightarrow> f x)"

text \<open>
  \<^verbatim>\<open>try: body except Exception: return handler\<close>, where the body ends in a
  \<^verbatim>\<open>return\<close>: whatever the body raises is replaced by the handler's answer.
\<close>

definition try_except :: "exn + 'a \<Rightarrow> 'a \<Rightarrow> exn + 'a" where
  "try_except body handler = (case body of Inl e \<Rightarrow> Inr handler | Inr r \<Rightarrow> Inr r)"

text \<open>A \<^verbatim>\<open>for\<close> loop that builds a list: the first item that raises ends the loop.\<close>

fun map_result :: "('a \<Rightarrow> exn + 'b) \<Rightarrow> 'a list \<Rightarrow> exn + 'b list" where
  "map_result f [] = Inr []"
| "map_result f (x # xs) =
     then_do (f x) (\<lambda>y. then_do (map_result f xs) (\<lambda>ys. Inr (y # ys)))"

text \<open>Truth value of an object, as \<^verbatim>\<open>if x:\<close> tests it.\<close>

fun py_truthy :: "pyval \<Rightarrow> bool" where
  "py_truthy PNone = False"
| "py_truthy (PBool b) = b"
| "py_truthy (PInt i) = (i \<noteq> 0)"
| "py_truthy (PStr s) = (s \<noteq> [])"
| "py_truthy (PList xs) = (xs \<noteq> [])"
| "py_truthy (PDict kvs) = (kvs \<noteq> [])"

text \<open>\<^verbatim>\<open>x.get(k, d)\<close>: only a dictionary has the method.\<close>

fun py_get :: "pyval \<Rightarrow> string \<Rightarrow> pyval \<Rightarrow> exn + pyval" where
  "py_get (PDict kvs) k d = Inr (case map_of kvs k of Some v \<Rightarrow> v | None \<Rightarrow> d)"
| "py_get _ k d = Inl AttributeError"

text \<open>\<^verbatim>\<open>x['k']\<close> with a string key.\<close>

fun py_item :: "pyval \<Rightarrow> string \<Rightarrow> exn + pyval" where
  "py_item (PDict kvs) k = (case map_of kvs k of Some v \<Rightarrow> Inr v | None \<Rightarrow> Inl KeyError)"
| "py_item _ k = Inl TypeError"

text \<open>\<^verbatim>\<open>x[0]\<close>: the first element of a list, the first character of a string.\<close>

fun py_item0 :: "pyval \<Rightarrow> exn + pyval" where
  "py_item0 (PList xs) = (case xs of [] \<Rightarrow> Inl IndexError | x # _ \<Rightarrow> Inr x)"
| "py_item0 (PStr s) = (case s of [] \<Rightarrow> Inl IndexError | c # _ \<Rightarrow> Inr (PStr [c]))"
| "py_item0 (PDict kvs) = Inl KeyError"
| "py_item0 _ = Inl TypeError"

fun is_substring :: "string \<Rightarrow> string \<Rightarrow> bool" where
  "is_substring k [] = (k = [])"
| "is_substring k (c # s) = (take (length k) (c # s) = k \<or> is_substring k s)"

text \<open>\<^verbatim>\<open>'k' in x\<close>: a key of a dictionary, an element of a list, a substring of a string.\<close>

fun py_contains :: "pyval \<Rightarrow> string \<Rightarrow> exn + bool" where
  "py_contains (PDict kvs) k = Inr (map_of kvs k \<noteq> None)"
| "py_contains (PList xs) k = Inr (List.member xs (PStr k))"
| "py_contains (PStr s) k = Inr (is_substring k s)"
| "py_contains _ k = Inl TypeError"

text \<open>\<^verbatim>\<open>x // n\<close> with an integer \<open>n\<close>: floor division; a boolean counts as 0 or 1.\<close>

fun py_floordiv :: "pyval \<Rightarrow> int \<Rightarrow> exn + pyval" where
  "py_floordiv (PInt i) n = (if n = 0 then Inl ZeroDivisionError else Inr (PInt (i div n)))"
| "py_floordiv (PBool b) n =
     (if n = 0 then Inl ZeroDivisionError else Inr (PInt ((if b then 1 else 0) div n)))"
| "py_floordiv _ n = Inl TypeError"

text \<open>The integer a value stands for in arithmetic, when it has one.\<close>

fun py_int_value :: "pyval \<Rightarrow> int option" where
  "py_int_value (PInt i) = Some i"
| "py_int_value (PBool b) = Some (if b then 1 else 0)"
| "py_int_value _ = None"

text \<open>\<^verbatim>\<open>limit * page\<close> with an integer \<open>limit\<close>: a string or a list is repeated.\<close>

fun py_mul_int :: "int \<Rightarrow> pyval \<Rightarrow> exn + pyval" where
  "py_mul_int n (PInt i) = Inr (PInt (n * i))"
| "py_mul_int n (PBool b) = Inr (PInt (n * (if b then 1 else 0)))"
| "py_mul_int n (PStr s) = Inr (PStr (concat (replicate (nat n) s)))"
| "py_mul_int n (PList xs) = Inr (PList (concat (replicate (nat n) xs)))"
| "py_mul_int n _ = Inl TypeError"

text \<open>\<^verbatim>\<open>page - 1\<close>: defined on integers (and booleans) only.\<close>

fun py_sub_int :: "pyval \<Rightarrow> int \<Rightarrow> exn + int" where
  "py_sub_int (PInt i) n = Inr (i - n)"
| "py_sub_int (PBool b) n = Inr ((if b then 1 else 0) - n)"
| "py_sub_int _ n = Inl TypeError"

text \<open>
  \<^verbatim>\<open>xs[start:stop]\<close>: a negative bound counts from the end, and every bound is
  clipped to the length.
\<close>

definition slice_bound :: "nat \<Rightarrow> int \<Rightarrow> nat" where
  "slice_bound n i = (if i < 0 then nat (max 0 (int n + i)) else min n (nat i))"

definition slice_list :: "'a list \<Rightarrow> int \<Rightarrow> int \<Rightarrow> 'a list" where
  "slice_list xs start stop =
     (let lo = slice_bound (length xs) start; hi = slice_bound (length xs) stop
      in take (hi - lo) (drop lo xs))"

fun py_slice :: "pyval \<Rightarrow> int \<Rightarrow> int \<Rightarrow> exn + pyval" where
  "py_slice (PList xs) start stop = Inr (PList (slice_list xs start stop))"
| "py_slice (PStr s) start stop = Inr (PStr (slice_list s start stop))"
| "py_slice _ start stop = Inl TypeError"

fun py_len :: "pyval \<Rightarrow> exn + nat" where
  "py_len (PList xs) = Inr (length xs)"
| "py_len (PStr s) = Inr (length s)"
| "py_len (PDict kvs) = Inr (length kvs)"
| "py_len _ = Inl TypeError"

text \<open>
  The items a \<^verbatim>\<open>for\<close> loop visits: the elements of a list, the characters of a
  string, the keys of a dictionary.
\<close>

fun py_iter :: "pyval \<Rightarrow> exn + pyval list" where
  "py_iter (PList xs) = Inr xs"
| "py_iter (PStr s) = Inr (map (\<lambda>c. PStr [c]) s)"
| "py_iter (PDict kvs) = Inr (map (\<lambda>kv. PStr (fst kv)) kvs)"
| "py_iter _ = Inl TypeError"

subsection \<open>Strings\<close>

text \<open>\<^verbatim>\<open>s.split(c)\<close> for a one-character separator: never an empty list.\<close>

fun split_on :: "char \<Rightarrow> string \<Rightarrow> string list" where
  "split_on c [] = [[]]"
| "split_on c (x # xs) =
     (if x = c then [] # split_on c xs
      else (case split_on c xs of [] \<Rightarrow> [[x]] | w # ws \<Rightarrow> (x # w) # ws))"

text \<open>\<^verbatim>\<open>'/'.join(comps)\<close>.\<close>

fun join_sep :: "string list \<Rightarrow> string" where
  "join_sep [] = []"
| "join_sep [w] = w"
| "join_sep (w # ws) = w @ ''/'' @ join_sep ws"

text \<open>Decimal digits of an integer, as \<^verbatim>\<open>str\<close> prints it.\<close>

definition digit_char :: "nat \<Rightarrow> char" where
  "digit_char d = ''0123456789'' ! d"

function decimal :: "nat \<Rightarrow> string" where
  "decimal n =
     (if 10 \<le> n then decimal (n div 10) @ [digit_char (n mod 10)] else [digit_char n])"
  by pat_completeness auto
termination
  by (relation "measure id") auto

definition py_str_int :: "int \<Rightarrow> string" where
  "py_str_int i = (if 0 \<le> i then decimal (nat i) else CHR ''-'' # decimal (nat (- i)))"

text \<open>
  The text an f-string puts in place of \<^verbatim>\<open>{v}\<close>. A string stands for itself;
  \<open>None\<close>, booleans and integers print as Python prints them. How a list or a
  dictionary prints (\<^verbatim>\<open>repr\<close> of every element) is the parameter \<open>repr\<close>.
\<close>

fun py_format :: "(pyval \<Rightarrow> string) \<Rightarrow> pyval \<Rightarrow> string" where
  "py_format repr (PStr s) = s"
| "py_format repr PNone = ''None''"
| "py_format repr (PBool b) = (if b then ''True'' else ''False'')"
| "py_format repr (PInt i) = py_str_int i"
| "py_format repr v = repr v"

text \<open>\<^verbatim>\<open>os.path.basename\<close>: what follows the last \<^verbatim>\<open>/\<close>.\<close>

definition basename :: "string \<Rightarrow> string" where
  "basename p = rev (takeWhile (\<lambda>c. c \<noteq> CHR ''/'') (rev p))"

section \<open>Responses\<close>

text \<open>
  A handler returns a JSON body with a status (\<^verbatim>\<open>jsonify(...), 400\<close>; the status
  is 200 when the code gives none), or the file response of \<^verbatim>\<open>send_file\<close>: the
  path it was opened from, the bytes it carries and the callbacks registered with
  \<^verbatim>\<open>call_on_close\<close>. A handler that lets an exception escape is \<open>Inl e\<close>, which
  the framework turns into a server error.
\<close>

datatype fs_op = Open string | Remove "string option"

datatype response =
    JsonResponse pyval nat
  | FileResponse string string "fs_op list"

definition error_response :: "string \<Rightarrow> nat \<Rightarrow> response" where
  "error_response msg status = JsonResponse (PDict [(''error'', PStr msg)]) status"

section \<open>Song resolver: catalog track lookup\<close>

text \<open>
  \<^verbatim>\<open>get_spotify_track_info\<close> (lines 47-54). \<open>sp_track\<close> is the catalog client's
  \<^verbatim>\<open>sp.track\<close>: its answer to a link is a parameter of the model.
\<close>

definition get_spotify_track_info :: "(pyval \<Rightarrow> exn + pyval) \<Rightarrow> pyval \<Rightarrow> exn + pyval" where
  "get_spotify_track_info sp_track spotify_link =
     then_do (sp_track spotify_link) (\<lambda>track_info.
     then_do (py_item track_info ''name'') (\<lambda>name.
     then_do (py_item track_info ''album'') (\<lambda>album.
     then_do (py_item album ''images'') (\<lambda>images.
     then_do (py_item0 images) (\<lambda>image.
     then_do (py_item image ''url'') (\<lambda>url.
     then_do (py_item track_info ''duration_ms'') (\<lambda>duration_ms.
     then_do (py_floordiv duration_ms 1000) (\<lambda>duration.
     then_do (py_contains track_info ''preview_url'') (\<lambda>has_preview.
     then_do (if has_preview then py_item track_info ''preview_url'' else Inr PNone)
       (\<lambda>preview_url.
     Inr (PDict [(''full_name'', name), (''preview_image'', url),
                 (''duration'', duration), (''preview_url'', preview_url)])))))))))))"

section \<open>Song resolver: free-text search and the \<^verbatim>\<open>/validate_song\<close> handler\<close>

text \<open>
  \<^verbatim>\<open>search_youtube_songs\<close> (lines 30-44), with \<^verbatim>\<open>limit=5\<close> as every caller
  leaves it. \<open>ydl_search\<close> is \<^verbatim>\<open>extract_info(query, download=False)\<close> of the
  extraction tool configured for flat search; it receives the query string the
  f-string builds.
\<close>

definition search_youtube_songs ::
  "(pyval \<Rightarrow> string) \<Rightarrow> (string \<Rightarrow> exn + pyval) \<Rightarrow> pyval \<Rightarrow> pyval \<Rightarrow> exn + (pyval \<times> bool)" where
  "search_youtube_songs repr ydl_search song_name page =
     (let limit = 5 in
      then_do (py_mul_int limit page) (\<lambda>n.
      then_do (ydl_search (''ytsearch'' @ py_format repr n @ '':'' @ py_format repr song_name))
        (\<lambda>search_result.
      then_do (py_contains search_result ''entries'') (\<lambda>has_entries.
      if has_entries then
        then_do (py_sub_int page 1) (\<lambda>p.
        let start = p * limit; end' = start + limit in
        then_do (py_item search_result ''entries'') (\<lambda>all_entries.
        then_do (py_slice all_entries start end') (\<lambda>entries.
        then_do (py_len all_entries) (\<lambda>n_all.
        Inr (entries, int n_all > end')))))
      else Inr (PList [], False)))))"

text \<open>One element of the list comprehension of lines 97-105.\<close>

definition song_option :: "pyval \<Rightarrow> exn + pyval" where
  "song_option entry =
     then_do (py_get entry ''title'' PNone) (\<lambda>title.
     then_do (py_get entry ''thumbnails'' PNone) (\<lambda>thumbnails.
     then_do (py_item0 thumbnails) (\<lambda>thumbnail.
     then_do (py_item thumbnail ''url'') (\<lambda>thumbnail_url.
     then_do (py_get entry ''url'' PNone) (\<lambda>youtube_link.
     then_do (py_get entry ''duration'' PNone) (\<lambda>duration.
     then_do (py_get entry ''url'' PNone) (\<lambda>preview_url.
     Inr (PDict [(''full_name'', title), (''preview_image'', thumbnail_url),
                 (''youtube_link'', youtube_link), (''duration'', duration),
                 (''preview_url'', preview_url)]))))))))"

text \<open>
  The three branches of \<^verbatim>\<open>validate_song\<close> (lines 65-77, 79-92, 94-108). The first
  one reads the raw catalog fields from the dictionary that
  \<^verbatim>\<open>get_spotify_track_info\<close> returned, outside the \<^verbatim>\<open>try\<close>. \<open>ydl_info\<close> is
  \<^verbatim>\<open>extract_info(youtube_link, download=False)\<close>.
\<close>

definition validate_spotify_link :: "(pyval \<Rightarrow> exn + pyval) \<Rightarrow> pyval \<Rightarrow> exn + response" where
  "validate_spotify_link sp_track spotify_link =
     (case get_spotify_track_info sp_track spotify_link of
        Inl e \<Rightarrow> Inr (error_response ''Invalid Spotify link'' 400)
      | Inr track_info \<Rightarrow>
          then_do (py_item track_info ''name'') (\<lambda>name.
          then_do (py_item track_info ''album'') (\<lambda>album.
          then_do (py_item album ''images'') (\<lambda>images.
          then_do (py_item0 images) (\<lambda>image.
          then_do (py_item image ''url'') (\<lambda>url.
          then_do (py_item track_info ''duration_ms'') (\<lambda>duration_ms.
          then_do (py_floordiv duration_ms 1000) (\<lambda>duration.
          then_do (py_item track_info ''preview_url'') (\<lambda>preview_url.
          Inr (JsonResponse
                 (PDict [(''full_name'', name), (''preview_image'', url),
                         (''duration'', duration), (''preview_url'', preview_url),
                         (''source'', PStr ''spotify'')]) 200))))))))))"

definition validate_youtube_link :: "(pyval \<Rightarrow> exn + pyval) \<Rightarrow> pyval \<Rightarrow> exn + response" where
  "validate_youtube_link ydl_info youtube_link =
     try_except
       (then_do (ydl_info youtube_link) (\<lambda>info.
        then_do (py_get info ''title'' PNone) (\<lambda>title.
        then_do (py_get info ''thumbnail'' PNone) (\<lambda>thumbnail.
        then_do (py_get info ''duration'' PNone) (\<lambda>duration.
        then_do (py_get info ''url'' PNone) (\<lambda>url.
        Inr (JsonResponse
               (PDict [(''full_name'', title), (''preview_image'', thumbnail),
                       (''duration'', duration), (''preview_url'', url),
                       (''source'', PStr ''youtube'')]) 200)))))))
       (error_response ''Invalid YouTube link'' 400)"

definition validate_song_name ::
  "(pyval \<Rightarrow> string) \<Rightarrow> (string \<Rightarrow> exn + pyval) \<Rightarrow> pyval \<Rightarrow> pyval \<Rightarrow> exn + response" where
  "validate_song_name repr ydl_search song_name page =
     then_do (search_youtube_songs repr ydl_search song_name page) (\<lambda>(youtube_results, has_more).
     if py_truthy youtube_results then
       then_do (py_iter youtube_results) (\<lambda>entries.
       then_do (map_result song_option entries) (\<lambda>song_options.
       Inr (JsonResponse
              (PDict [(''song_options'', PList song_options),
                      (''has_more'', PBool has_more)]) 200)))
     else Inr (error_response ''No valid song link or name provided'' 400))"

text \<open>\<^verbatim>\<open>validate_song\<close> (lines 57-108); \<open>data\<close> is \<^verbatim>\<open>request.json\<close>.\<close>

definition validate_song ::
  "(pyval \<Rightarrow> string) \<Rightarrow> (pyval \<Rightarrow> exn + pyval) \<Rightarrow> (pyval \<Rightarrow> exn + pyval) \<Rightarrow>
   (string \<Rightarrow> exn + pyval) \<Rightarrow> pyval \<Rightarrow> exn + response" where
  "validate_song repr sp_track ydl_info ydl_search data =
     then_do (py_get data ''song_name'' PNone) (\<lambda>song_name.
     then_do (py_get data ''youtube_link'' PNone) (\<lambda>youtube_link.
     then_do (py_get data ''spotify_link'' PNone) (\<lambda>spotify_link.
     then_do (py_get data ''page'' (PInt 1)) (\<lambda>page.
     if py_truthy spotify_link then validate_spotify_link sp_track spotify_link
     else if py_truthy youtube_link then validate_youtube_link ydl_info youtube_link
     else if py_truthy song_name then validate_song_name repr ydl_search song_name page
     else Inr (error_response ''No valid song link or name provided'' 400)))))"

section \<open>Playlist expander\<close>

text \<open>\<^verbatim>\<open>seq[-1]\<close> and \<^verbatim>\<open>seq[0]\<close> on a list of strings.\<close>

definition last_item :: "'a list \<Rightarrow> exn + 'a" where
  "last_item xs = (if xs = [] then Inl IndexError else Inr (last xs))"

definition first_item :: "'a list \<Rightarrow> exn + 'a" where
  "first_item xs = (case xs of [] \<Rightarrow> Inl IndexError | x # _ \<Rightarrow> Inr x)"

text \<open>
  \<^verbatim>\<open>playlist_link.split('/')[-1].split('?')[0]\<close> (line 117): only a string has
  \<^verbatim>\<open>split\<close>.
\<close>

fun playlist_id_of :: "pyval \<Rightarrow> exn + string" where
  "playlist_id_of (PStr s) =
     then_do (last_item (split_on CHR ''/'' s)) (\<lambda>seg. first_item (split_on CHR ''?'' seg))"
| "playlist_id_of _ = Inl AttributeError"

text \<open>The body of the loop of lines 121-129.\<close>

definition playlist_song :: "pyval \<Rightarrow> exn + pyval" where
  "playlist_song item =
     then_do (py_item item ''track'') (\<lambda>track.
     then_do (py_item track ''name'') (\<lambda>name.
     then_do (py_item track ''artists'') (\<lambda>artists.
     then_do (py_item0 artists) (\<lambda>artist.
     then_do (py_item artist ''name'') (\<lambda>artist_name.
     then_do (py_item track ''album'') (\<lambda>album.
     then_do (py_item album ''images'') (\<lambda>images.
     then_do (py_item0 images) (\<lambda>image.
     then_do (py_item image ''url'') (\<lambda>url.
     then_do (py_item track ''duration_ms'') (\<lambda>duration_ms.
     then_do (py_floordiv duration_ms 1000) (\<lambda>duration.
     then_do (py_get track ''preview_url'' PNone) (\<lambda>preview_url.
     Inr (PDict [(''full_name'', name), (''artist'', artist_name),
                 (''preview_image'', url), (''duration'', duration),
                 (''preview_url'', preview_url)])))))))))))))"

text \<open>
  \<^verbatim>\<open>get_playlist_songs\<close> (lines 111-133). \<open>sp_playlist_tracks\<close> is the catalog
  client's \<^verbatim>\<open>sp.playlist_tracks\<close>. Reading the field happens before the
  \<^verbatim>\<open>try\<close>, everything else inside it.
\<close>

definition get_playlist_songs :: "(string \<Rightarrow> exn + pyval) \<Rightarrow> pyval \<Rightarrow> exn + response" where
  "get_playlist_songs sp_playlist_tracks data =
     then_do (py_get data ''playlist_link'' PNone) (\<lambda>playlist_link.
     try_except
       (then_do (playlist_id_of playlist_link) (\<lambda>playlist_id.
       then_do (sp_playlist_tracks playlist_id) (\<lambda>playlist.
       then_do (py_item playlist ''items'') (\<lambda>items.
       then_do (py_iter items) (\<lambda>item_list.
       then_do (map_result playlist_song item_list) (\<lambda>songs.
       Inr (JsonResponse (PDict [(''songs'', PList songs)]) 200)))))))
       (error_response ''Invalid Spotify playlist link'' 400))"

section \<open>Download orchestrator\<close>

definition DOWNLOAD_FOLDER :: string where
  "DOWNLOAD_FOLDER = ''downloads''"

text \<open>
  \<^verbatim>\<open>search_and_download_song\<close> (lines 136-155), with \<^verbatim>\<open>output_folder\<close> left at
  its default. \<open>ydl_download\<close> is \<^verbatim>\<open>extract_info(query, download=True)\<close> of the
  extraction tool configured to download and transcode. No exception is caught
  here.
\<close>

definition search_and_download_song ::
  "(pyval \<Rightarrow> string) \<Rightarrow> (string \<Rightarrow> exn + pyval) \<Rightarrow> pyval \<Rightarrow> exn + string option" where
  "search_and_download_song repr ydl_download song_name =
     then_do (ydl_download (''ytsearch:'' @ py_format repr song_name)) (\<lambda>info.
     then_do (py_contains info ''entries'') (\<lambda>has_entries.
     if has_entries then
       then_do (py_item info ''entries'') (\<lambda>entries.
       then_do (py_item0 entries) (\<lambda>video_info.
       then_do (py_item video_info ''title'') (\<lambda>title.
       Inr (Some (DOWNLOAD_FOLDER @ ''/'' @ py_format repr title @ ''.mp3'')))))
     else Inr None))"

text \<open>
  The loop of lines 163-166: \<open>downloaded_songs\<close> is the list built so far. A call
  that raises ends the loop and the handler with it.
\<close>

fun download_loop ::
  "(pyval \<Rightarrow> string) \<Rightarrow> (string \<Rightarrow> exn + pyval) \<Rightarrow> pyval list \<Rightarrow> string list \<Rightarrow> exn + string list" where
  "download_loop repr ydl_download [] downloaded_songs = Inr downloaded_songs"
| "download_loop repr ydl_download (song # rest) downloaded_songs =
     then_do (search_and_download_song repr ydl_download song) (\<lambda>file_path.
     download_loop repr ydl_download rest
       (case file_path of
          None \<Rightarrow> downloaded_songs
        | Some p \<Rightarrow> if p \<noteq> [] then downloaded_songs @ [basename p] else downloaded_songs))"

text \<open>\<^verbatim>\<open>download_songs\<close> (lines 158-168).\<close>

definition download_songs ::
  "(pyval \<Rightarrow> string) \<Rightarrow> (string \<Rightarrow> exn + pyval) \<Rightarrow> pyval \<Rightarrow> exn + response" where
  "download_songs repr ydl_download data =
     then_do (py_get data ''songs'' PNone) (\<lambda>song_names.
     then_do (py_iter song_names) (\<lambda>songs.
     then_do (download_loop repr ydl_download songs []) (\<lambda>downloaded_songs.
     Inr (JsonResponse (PDict [(''downloaded_songs'', PList (map PStr downloaded_songs))]) 200))))"

section \<open>File delivery\<close>

subsection \<open>Path confinement: \<^verbatim>\<open>werkzeug.utils.safe_join\<close> over \<^verbatim>\<open>posixpath\<close>\<close>

text \<open>
  \<^verbatim>\<open>download_file\<close> leaves the confinement of the path to the library function
  it imports at line 8. The model follows the library on a POSIX system:
  \<^verbatim>\<open>posixpath.normpath\<close> drops empty and \<^verbatim>\<open>.\<close> components and cancels a name
  against a following \<^verbatim>\<open>..\<close>; \<^verbatim>\<open>safe_join\<close> normalises a non-empty file
  name, answers \<open>None\<close> when the result is absolute, is \<^verbatim>\<open>..\<close> or starts with
  \<^verbatim>\<open>../\<close>, and joins it to the directory otherwise.
\<close>

text \<open>The loop of \<^verbatim>\<open>normpath\<close> over the components, \<open>new_comps\<close> built so far.\<close>

fun normpath_comps :: "bool \<Rightarrow> string list \<Rightarrow> string list \<Rightarrow> string list" where
  "normpath_comps initial_slashes [] new_comps = new_comps"
| "normpath_comps initial_slashes (comp' # comps) new_comps =
     (if comp' = [] \<or> comp' = ''.'' then normpath_comps initial_slashes comps new_comps
      else if comp' \<noteq> ''..'' \<or> (\<not> initial_slashes \<and> new_comps = [])
              \<or> (new_comps \<noteq> [] \<and> last new_comps = ''..'')
        then normpath_comps initial_slashes comps (new_comps @ [comp'])
      else if new_comps \<noteq> [] then normpath_comps initial_slashes comps (butlast new_comps)
      else normpath_comps initial_slashes comps new_comps)"

definition normpath :: "string \<Rightarrow> string" where
  "normpath path =
     (if path = [] then ''.''
      else
        let initial_slashes =
              (if take 1 path = ''/'' then
                 (if take 2 path = ''//'' \<and> take 3 path \<noteq> ''///'' then 2 else 1)
               else (0::nat));
            comps = normpath_comps (initial_slashes \<noteq> 0) (split_on CHR ''/'' path) [];
            joined = replicate initial_slashes CHR ''/'' @ join_sep comps
        in if joined = [] then ''.'' else joined)"

text \<open>\<^verbatim>\<open>posixpath.join(a, b)\<close> and \<^verbatim>\<open>posixpath.isabs\<close>.\<close>

definition posix_join :: "string \<Rightarrow> string \<Rightarrow> string" where
  "posix_join a b =
     (if take 1 b = ''/'' then b
      else if a = [] \<or> (a \<noteq> [] \<and> last a = CHR ''/'') then a @ b
      else a @ ''/'' @ b)"

definition isabs :: "string \<Rightarrow> bool" where
  "isabs s = (take 1 s = ''/'')"

definition safe_join :: "string \<Rightarrow> string \<Rightarrow> string option" where
  "safe_join directory untrusted =
     (let directory = (if directory = [] then ''.'' else directory);
          filename = (if untrusted \<noteq> [] then normpath untrusted else untrusted)
      in if isabs filename \<or> filename = ''..'' \<or> take 3 filename = ''../'' then None
         else Some (posix_join directory filename))"

subsection \<open>The handler and the life of a response\<close>

text \<open>
  The files \<^verbatim>\<open>send_file\<close> can read: a map from the relative path it is given
  (which it resolves against the application's root) to the content of the
  regular file there.
\<close>

type_synonym filesystem = "string \<Rightarrow> string option"

text \<open>
  \<^verbatim>\<open>send_file(file_path, as_attachment=True)\<close>: raises on \<open>None\<close> without
  touching a file, raises when no regular file is at the path, and otherwise
  answers with the file. The second component lists the file-system calls made.
\<close>

definition send_file :: "filesystem \<Rightarrow> string option \<Rightarrow> (exn + response) \<times> fs_op list" where
  "send_file fs file_path =
     (case file_path of
        None \<Rightarrow> (Inl TypeError, [])
      | Some p \<Rightarrow>
          (case fs p of
             None \<Rightarrow> (Inl FileNotFoundError, [Open p])
           | Some content \<Rightarrow> (Inr (FileResponse p content []), [Open p])))"

fun call_on_close :: "response \<Rightarrow> fs_op \<Rightarrow> response" where
  "call_on_close (FileResponse p content callbacks) f = FileResponse p content (callbacks @ [f])"
| "call_on_close (JsonResponse body status) f = JsonResponse body status"

text \<open>
  \<^verbatim>\<open>download_file\<close> (lines 171-179): the response, and the file-system calls the
  handler itself made. The removal is only registered on the response.
\<close>

definition download_file :: "filesystem \<Rightarrow> string \<Rightarrow> response \<times> fs_op list" where
  "download_file fs filename =
     (let file_path = safe_join DOWNLOAD_FOLDER filename in
      case send_file fs file_path of
        (Inl e, ops) \<Rightarrow> (error_response ''File not found'' 404, ops)
      | (Inr response, ops) \<Rightarrow> (call_on_close response (Remove file_path), ops))"

text \<open>
  What the server does with a response after the handler returned it. It sends
  the body, which ends when all of it is sent or when the client goes away. An
  ordinary response is handed to the server wrapped in an iterator whose
  \<^verbatim>\<open>close\<close> calls \<^verbatim>\<open>Response.close\<close>, and that runs the callbacks registered
  with \<^verbatim>\<open>call_on_close\<close>. The response of \<^verbatim>\<open>send_file\<close> is built with
  \<^verbatim>\<open>direct_passthrough=True\<close>: its body, the file wrapper, is handed to the
  server as it is, the server closes the file, and \<^verbatim>\<open>Response.close\<close> with the
  registered callbacks is never called.
\<close>

datatype transfer = Completed | ClientAbort

fun direct_passthrough :: "response \<Rightarrow> bool" where
  "direct_passthrough (FileResponse p content callbacks) = True"
| "direct_passthrough (JsonResponse body status) = False"

fun on_close :: "response \<Rightarrow> fs_op list" where
  "on_close (FileResponse p content callbacks) = callbacks"
| "on_close (JsonResponse body status) = []"

text \<open>The callbacks the server's \<^verbatim>\<open>close\<close> reaches.\<close>

definition closing_calls :: "response \<Rightarrow> fs_op list" where
  "closing_calls response = (if direct_passthrough response then [] else on_close response)"

text \<open>
  A callback that runs: \<^verbatim>\<open>os.remove\<close> deletes the file at its path; one that
  raises changes nothing.
\<close>

fun run_fs_op :: "fs_op \<Rightarrow> filesystem \<Rightarrow> filesystem" where
  "run_fs_op (Remove (Some p)) fs = fs(p := None)"
| "run_fs_op (Remove None) fs = fs"
| "run_fs_op (Open p) fs = fs"

datatype event = Handler fs_op | Transfer transfer | Closing fs_op

text \<open>One request to \<^verbatim>\<open>/download_file/<filename>\<close>: response, events in order, files left.\<close>

definition serve_download ::
  "filesystem \<Rightarrow> string \<Rightarrow> transfer \<Rightarrow> response \<times> event list \<times> filesystem" where
  "serve_download fs filename outcome =
     (case download_file fs filename of
        (response, ops) \<Rightarrow>
          (response,
           map Handler ops @ [Transfer outcome] @ map Closing (closing_calls response),
           fold run_fs_op (closing_calls response) fs))"

text \<open>
  The claim's notion of a file name that escapes the download directory, stated
  on the components of the name and independently of \<^verbatim>\<open>normpath\<close>: the name is
  absolute, or walking its components from the directory (depth \<open>0\<close>) meets a
  \<^verbatim>\<open>..\<close> at depth \<open>0\<close>.
\<close>

fun climbs_out :: "nat \<Rightarrow> string list \<Rightarrow> bool" where
  "climbs_out depth [] = False"
| "climbs_out depth (comp' # comps) =
     (if comp' = [] \<or> comp' = ''.'' then climbs_out depth comps
      else if comp' = ''..'' then (case depth of 0 \<Rightarrow> True | Suc d \<Rightarrow> climbs_out d comps)
      else climbs_out (Suc depth) comps)"

definition escapes :: "string \<Rightarrow> bool" where
  "escapes filename = (isabs filename \<or> climbs_out 0 (split_on CHR ''/'' filename))"

section \<open>Example collaborators\<close>

text \<open>Concrete answers of the catalog client, used to run the model.\<close>

definition example_track :: pyval where
  "example_track =
     PDict [(''name'', PStr ''Song''),
            (''album'', PDict [(''images'', PList [PDict [(''url'', PStr ''http://img/1'')]])]),
            (''artists'', PList [PDict [(''name'', PStr ''Band'')]]),
            (''duration_ms'', PInt 215999),
            (''preview_url'', PNone)]"

definition example_sp_track :: "pyval \<Rightarrow> exn + pyval" where
  "example_sp_track link =
     (if link = PStr ''spotify:track:1'' then Inr example_track else Inl CollaboratorError)"

definition example_sp_playlist_tracks :: "string \<Rightarrow> exn + pyval" where
  "example_sp_playlist_tracks playlist_id =
     (if playlist_id = ''p1'' then Inr (PDict [(''items'', PList [PDict [(''track'', example_track)]])])
      else Inl CollaboratorError)"

definition example_ydl_info :: "pyval \<Rightarrow> exn + pyval" where
  "example_ydl_info link =
     (if link = PStr ''https://youtu.be/v1''
      then Inr (PDict [(''title'', PStr ''Video''), (''thumbnail'', PStr ''http://img/v1''),
                       (''duration'', PInt 200), (''url'', PStr ''http://stream/v1'')])
      else Inl CollaboratorError)"

definition example_entry :: "string \<Rightarrow> pyval" where
  "example_entry n =
     PDict [(''title'', PStr (''Title '' @ n)),
            (''thumbnails'', PList [PDict [(''url'', PStr (''http://img/'' @ n))]]),
            (''url'', PStr (''https://youtu.be/'' @ n)),
            (''duration'', PInt 180)]"

definition example_ydl_search :: "string \<Rightarrow> exn + pyval" where
  "example_ydl_search query =
     (if query = ''ytsearch10:abc''
      then Inr (PDict [(''entries'', PList (map example_entry
                  [''a'', ''b'', ''c'', ''d'', ''e'', ''f'', ''g'']))])
      else Inl CollaboratorError)"

definition example_repr :: "pyval \<Rightarrow> string" where
  "example_repr v = ''<object>''"

definition example_ydl_download :: "string \<Rightarrow> exn + pyval" where
  "example_ydl_download query =
     (if query = ''ytsearch:a'' then Inr (PDict [(''entries'', PList [])])
      else if query = ''ytsearch:b''
        then Inr (PDict [(''entries'', PList [PDict [(''title'', PStr ''b song'')]])])
      else Inl CollaboratorError)"

section \<open>Properties\<close>

lemma then_do_Inr_iff:
  "then_do m f = Inr y \<longleftrightarrow> (\<exists>x. m = Inr x \<and> f x = Inr y)"
  by (cases m) (simp_all add: then_do_def)

lemma py_floordiv_Inr:
  "py_floordiv v n = Inr d \<Longrightarrow> \<exists>i. py_int_value v = Some i \<and> d = PInt (i div n)"
  by (cases v) (auto split: if_splits)

lemma get_spotify_track_info_duration:
  assumes "get_spotify_track_info sp_track link = Inr md"
  shows "\<exists>track_info dms ms. sp_track link = Inr track_info
           \<and> py_item track_info ''duration_ms'' = Inr dms
           \<and> py_int_value dms = Some ms
           \<and> py_item md ''duration'' = Inr (PInt (ms div 1000))"
proof -
  from assms obtain track_info name url dms duration preview_url where
    t: "sp_track link = Inr track_info" and
    d: "py_item track_info ''duration_ms'' = Inr dms" and
    f: "py_floordiv dms 1000 = Inr duration" and
    md: "md = PDict [(''full_name'', name), (''preview_image'', url),
                 (''duration'', duration), (''preview_url'', preview_url)]"
    unfolding get_spotify_track_info_def then_do_Inr_iff by blast
  from py_floordiv_Inr [OF f] obtain ms where
    ms: "py_int_value dms = Some ms" "duration = PInt (ms div 1000)" by blast
  have "py_item md ''duration'' = Inr (PInt (ms div 1000))"
    by (simp add: md ms)
  with t d ms show ?thesis by blast
qed

subsection \<open>Catalog durations\<close>

lemma map_result_Inr:
  "map_result f xs = Inr ys \<Longrightarrow> list_all2 (\<lambda>x y. f x = Inr y) xs ys"
proof (induction xs arbitrary: ys)
  case Nil
  then show ?case by simp
next
  case (Cons x xs)
  from Cons.prems obtain y ys' where
    "f x = Inr y" "map_result f xs = Inr ys'" "ys = y # ys'"
    by (auto simp: then_do_Inr_iff)
  with Cons.IH show ?case by simp
qed

lemma playlist_song_duration:
  assumes "playlist_song item = Inr song"
  shows "\<exists>track dms ms. py_item item ''track'' = Inr track
           \<and> py_item track ''duration_ms'' = Inr dms
           \<and> py_int_value dms = Some ms
           \<and> py_item song ''duration'' = Inr (PInt (ms div 1000))"
proof -
  from assms obtain track name artist_name url dms duration preview_url where
    t: "py_item item ''track'' = Inr track" and
    d: "py_item track ''duration_ms'' = Inr dms" and
    f: "py_floordiv dms 1000 = Inr duration" and
    song: "song = PDict [(''full_name'', name), (''artist'', artist_name),
                 (''preview_image'', url), (''duration'', duration),
                 (''preview_url'', preview_url)]"
    unfolding playlist_song_def then_do_Inr_iff by blast
  from py_floordiv_Inr [OF f] obtain ms where
    ms: "py_int_value dms = Some ms" "duration = PInt (ms div 1000)" by blast
  have "py_item song ''duration'' = Inr (PInt (ms div 1000))"
    by (simp add: song ms)
  with t d ms show ?thesis by blast
qed

lemma try_except_Inr_iff:
  "try_except m h = Inr r \<longleftrightarrow> m = Inr r \<or> ((\<exists>e. m = Inl e) \<and> r = h)"
  by (cases m) (auto simp: try_except_def)

lemma get_playlist_songs_Inr:
  assumes "get_playlist_songs sp_playlist_tracks data = Inr (JsonResponse (PDict [(''songs'', PList songs)]) 200)"
  shows "\<exists>link pid playlist its items.
           py_get data ''playlist_link'' PNone = Inr link
         \<and> playlist_id_of link = Inr pid
         \<and> sp_playlist_tracks pid = Inr playlist
         \<and> py_item playlist ''items'' = Inr its
         \<and> py_iter its = Inr items
         \<and> map_result playlist_song items = Inr songs"
proof -
  from assms obtain link where
    l: "py_get data ''playlist_link'' PNone = Inr link" and
    b: "then_do (playlist_id_of link) (\<lambda>playlist_id.
       then_do (sp_playlist_tracks playlist_id) (\<lambda>playlist.
       then_do (py_item playlist ''items'') (\<lambda>items.
       then_do (py_iter items) (\<lambda>item_list.
       then_do (map_result playlist_song item_list) (\<lambda>songs.
       Inr (JsonResponse (PDict [(''songs'', PList songs)]) 200))))))
       = Inr (JsonResponse (PDict [(''songs'', PList songs)]) 200)"
    unfolding get_playlist_songs_def
    by (auto simp: then_do_Inr_iff try_except_Inr_iff error_response_def)
  from b l show ?thesis
    unfolding then_do_Inr_iff by auto
qed


text \<open>
  Claim C6. Whenever the catalog lookup of a track succeeds and
  \<^verbatim>\<open>get_spotify_track_info\<close> returns its metadata, the \<open>duration\<close> field is the
  provider's \<open>duration_ms\<close> integer-divided by 1000 (floor division); the same
  holds for every song of a successful \<^verbatim>\<open>/get_playlist_songs\<close> answer, item by
  item in the playlist's order.
\<close>

theorem catalog_duration_is_ms_div_1000:
  "(get_spotify_track_info sp_track link = Inr md \<longrightarrow>
      (\<exists>track_info dms ms. sp_track link = Inr track_info
           \<and> py_item track_info ''duration_ms'' = Inr dms
           \<and> py_int_value dms = Some ms
           \<and> py_item md ''duration'' = Inr (PInt (ms div 1000))))
   \<and> (get_playlist_songs sp_playlist_tracks data =
          Inr (JsonResponse (PDict [(''songs'', PList songs)]) 200) \<longrightarrow>
      (\<exists>link pid playlist its items.
           py_get data ''playlist_link'' PNone = Inr link
         \<and> playlist_id_of link = Inr pid
         \<and> sp_playlist_tracks pid = Inr playlist
         \<and> py_item playlist ''items'' = Inr its
         \<and> py_iter its = Inr items
         \<and> list_all2 (\<lambda>item song. \<exists>track dms ms.
               py_item item ''track'' = Inr track
             \<and> py_item track ''duration_ms'' = Inr dms
             \<and> py_int_value dms = Some ms
             \<and> py_item song ''duration'' = Inr (PInt (ms div 1000))) items songs))"
proof (intro conjI impI)
  assume "get_spotify_track_info sp_track link = Inr md"
  then show "\<exists>track_info dms ms. sp_track link = Inr track_info
           \<and> py_item track_info ''duration_ms'' = Inr dms
           \<and> py_int_value dms = Some ms
           \<and> py_item md ''duration'' = Inr (PInt (ms div 1000))"
    by (rule get_spotify_track_info_duration)
next
  assume "get_playlist_songs sp_playlist_tracks data =
          Inr (JsonResponse (PDict [(''songs'', PList songs)]) 200)"
  from get_playlist_songs_Inr [OF this] obtain link pid playlist its items where
    *: "py_get data ''playlist_link'' PNone = Inr link" "playlist_id_of link = Inr pid"
       "sp_playlist_tracks pid = Inr playlist" "py_item playlist ''items'' = Inr its"
       "py_iter its = Inr items" and
    m: "map_result playlist_song items = Inr songs"
    by blast
  have "list_all2 (\<lambda>item song. playlist_song item = Inr song) items songs"
    using m by (rule map_result_Inr)
  then have "list_all2 (\<lambda>item song. \<exists>track dms ms.
               py_item item ''track'' = Inr track
             \<and> py_item track ''duration_ms'' = Inr dms
             \<and> py_int_value dms = Some ms
             \<and> py_item song ''duration'' = Inr (PInt (ms div 1000))) items songs"
    by (rule list_all2_mono) (rule playlist_song_duration)
  with * show "\<exists>link pid playlist its items.
           py_get data ''playlist_link'' PNone = Inr link
         \<and> playlist_id_of link = Inr pid
         \<and> sp_playlist_tracks pid = Inr playlist
         \<and> py_item playlist ''items'' = Inr its
         \<and> py_iter its = Inr items
         \<and> list_all2 (\<lambda>item song. \<exists>track dms ms.
               py_item item ''track'' = Inr track
             \<and> py_item track ''duration_ms'' = Inr dms
             \<and> py_int_value dms = Some ms
             \<and> py_item song ''duration'' = Inr (PInt (ms div 1000))) items songs"
    by blast
qed

lemma example_track_info:
  "get_spotify_track_info example_sp_track (PStr ''spotify:track:1'') =
     Inr (PDict [(''full_name'', PStr ''Song''), (''preview_image'', PStr ''http://img/1''),
                 (''duration'', PInt 215), (''preview_url'', PNone)])"
  by (simp add: get_spotify_track_info_def example_sp_track_def example_track_def then_do_def)

lemma example_playlist_songs:
  "get_playlist_songs example_sp_playlist_tracks
     (PDict [(''playlist_link'', PStr ''https://open.spotify.com/playlist/p1?si=abc'')]) =
     Inr (JsonResponse (PDict [(''songs'', PList
       [PDict [(''full_name'', PStr ''Song''), (''artist'', PStr ''Band''),
               (''preview_image'', PStr ''http://img/1''), (''duration'', PInt 215),
               (''preview_url'', PNone)]])]) 200)"
  by (simp add: get_playlist_songs_def example_sp_playlist_tracks_def example_track_def
      playlist_song_def then_do_def try_except_def last_item_def first_item_def)

theorem catalog_duration_is_ms_div_1000_witness:
  "get_spotify_track_info example_sp_track (PStr ''spotify:track:1'') =
     Inr (PDict [(''full_name'', PStr ''Song''), (''preview_image'', PStr ''http://img/1''),
                 (''duration'', PInt 215), (''preview_url'', PNone)])
   \<and> example_sp_track (PStr ''spotify:track:1'') = Inr example_track
   \<and> py_item example_track ''duration_ms'' = Inr (PInt 215999)
   \<and> (\<exists>ms. py_int_value (PInt 215999) = Some ms \<and> PInt 215 = PInt (ms div 1000))
   \<and> get_playlist_songs example_sp_playlist_tracks
     (PDict [(''playlist_link'', PStr ''https://open.spotify.com/playlist/p1?si=abc'')]) =
     Inr (JsonResponse (PDict [(''songs'', PList
       [PDict [(''full_name'', PStr ''Song''), (''artist'', PStr ''Band''),
               (''preview_image'', PStr ''http://img/1''), (''duration'', PInt 215),
               (''preview_url'', PNone)]])]) 200)"
  using catalog_duration_is_ms_div_1000 [of example_sp_track "PStr ''spotify:track:1''"
      "PDict [(''full_name'', PStr ''Song''), (''preview_image'', PStr ''http://img/1''),
                 (''duration'', PInt 215), (''preview_url'', PNone)]"
      example_sp_playlist_tracks
      "PDict [(''playlist_link'', PStr ''https://open.spotify.com/playlist/p1?si=abc'')]"
      "[PDict [(''full_name'', PStr ''Song''), (''artist'', PStr ''Band''),
               (''preview_image'', PStr ''http://img/1''), (''duration'', PInt 215),
               (''preview_url'', PNone)]]"]
    example_track_info example_playlist_songs
  by (simp add: example_sp_track_def example_track_def)

subsection \<open>Playlist requests without a link\<close>

text \<open>
  Claim C10. A \<^verbatim>\<open>/get_playlist_songs\<close> request whose body has no
  \<open>playlist_link\<close> field, or has \<open>null\<close> there, is answered with the JSON error
  "Invalid Spotify playlist link" and status 400: \<^verbatim>\<open>None.split\<close> raises inside
  the \<^verbatim>\<open>try\<close>, so the handler neither raises nor answers with another error.
\<close>

theorem missing_playlist_link_is_invalid_link:
  assumes "map_of kvs ''playlist_link'' = None \<or> map_of kvs ''playlist_link'' = Some PNone"
  shows "get_playlist_songs sp_playlist_tracks (PDict kvs) =
           Inr (error_response ''Invalid Spotify playlist link'' 400)"
  using assms
  by (auto simp: get_playlist_songs_def then_do_def try_except_def)

theorem missing_playlist_link_is_invalid_link_witness:
  "map_of ([] :: (string \<times> pyval) list) ''playlist_link'' = None
   \<and> get_playlist_songs example_sp_playlist_tracks (PDict []) =
       Inr (JsonResponse (PDict [(''error'', PStr ''Invalid Spotify playlist link'')]) 400)"
  using missing_playlist_link_is_invalid_link [of "[]" example_sp_playlist_tracks]
  by (simp add: error_response_def)


subsection \<open>The \<^verbatim>\<open>/validate_song\<close> handler: which input is honoured\<close>

text \<open>
  Claim C8. A \<^verbatim>\<open>/validate_song\<close> request with none of \<open>spotify_link\<close>,
  \<open>youtube_link\<close>, \<open>song_name\<close> in its body is answered with the JSON error
  "No valid song link or name provided" and status 400.
\<close>

theorem no_input_is_missing_input_error:
  assumes "map_of kvs ''spotify_link'' = None" and "map_of kvs ''youtube_link'' = None"
    and "map_of kvs ''song_name'' = None"
  shows "validate_song repr sp_track ydl_info ydl_search (PDict kvs) =
           Inr (JsonResponse (PDict [(''error'', PStr ''No valid song link or name provided'')]) 400)"
  using assms by (simp add: validate_song_def then_do_def error_response_def)


lemma validate_song_spotify:
  assumes "py_get data ''spotify_link'' PNone = Inr link" and "py_truthy link"
  shows "validate_song repr sp_track ydl_info ydl_search data = validate_spotify_link sp_track link"
  using assms by (cases data) (simp_all add: validate_song_def then_do_def)

lemma validate_song_youtube:
  assumes "py_get data ''spotify_link'' PNone = Inr s" and "\<not> py_truthy s"
    and "py_get data ''youtube_link'' PNone = Inr link" and "py_truthy link"
  shows "validate_song repr sp_track ydl_info ydl_search data = validate_youtube_link ydl_info link"
  using assms by (cases data) (simp_all add: validate_song_def then_do_def)

lemma validate_song_search:
  assumes "py_get data ''spotify_link'' PNone = Inr s" and "\<not> py_truthy s"
    and "py_get data ''youtube_link'' PNone = Inr y" and "\<not> py_truthy y"
    and "py_get data ''song_name'' PNone = Inr name" and "py_truthy name"
    and "py_get data ''page'' (PInt 1) = Inr page"
  shows "validate_song repr sp_track ydl_info ydl_search data =
           validate_song_name repr ydl_search name page"
  using assms by (cases data) (simp_all add: validate_song_def then_do_def)



text \<open>
  Claim C7. An input is present when the handler's test \<^verbatim>\<open>if x:\<close> accepts it.
  With a present \<open>spotify_link\<close> the answer is that of the catalog branch on this
  link alone; without it and with a present \<open>youtube_link\<close> the answer is that of
  the video branch on this link alone. In both cases a second request that agrees
  on the honoured input gets the same answer (success or error), whatever its
  other fields are and whatever the collaborators of the other branches do.
\<close>

theorem validate_song_priority:
  "(py_get data ''spotify_link'' PNone = Inr link \<and> py_truthy link
      \<and> py_get data' ''spotify_link'' PNone = Inr link
    \<longrightarrow> validate_song repr sp_track ydl_info ydl_search data = validate_spotify_link sp_track link
      \<and> validate_song repr' sp_track ydl_info' ydl_search' data' =
          validate_song repr sp_track ydl_info ydl_search data)
   \<and> (py_get data ''spotify_link'' PNone = Inr s \<and> \<not> py_truthy s
      \<and> py_get data' ''spotify_link'' PNone = Inr s' \<and> \<not> py_truthy s'
      \<and> py_get data ''youtube_link'' PNone = Inr link \<and> py_truthy link
      \<and> py_get data' ''youtube_link'' PNone = Inr link
    \<longrightarrow> validate_song repr sp_track ydl_info ydl_search data = validate_youtube_link ydl_info link
      \<and> validate_song repr' sp_track' ydl_info ydl_search' data' =
          validate_song repr sp_track ydl_info ydl_search data)"
  by (simp add: validate_song_spotify validate_song_youtube)


subsection \<open>Song options of the free-text path\<close>

lemma song_option_links:
  assumes "song_option entry = Inr opt"
  shows "\<exists>url. py_item opt ''preview_url'' = Inr url \<and> py_item opt ''youtube_link'' = Inr url"
proof -
  from assms obtain title thumbnail_url youtube_link duration preview_url where
    y: "py_get entry ''url'' PNone = Inr youtube_link" and
    p: "py_get entry ''url'' PNone = Inr preview_url" and
    opt: "opt = PDict [(''full_name'', title), (''preview_image'', thumbnail_url),
                 (''youtube_link'', youtube_link), (''duration'', duration),
                 (''preview_url'', preview_url)]"
    unfolding song_option_def then_do_Inr_iff by blast
  from y p have "preview_url = youtube_link" by simp
  then show ?thesis by (simp add: opt)
qed

lemma validate_spotify_link_shape:
  "validate_spotify_link sp_track link \<noteq>
     Inr (JsonResponse (PDict ((''song_options'', x) # rest)) st)"
  by (auto simp: validate_spotify_link_def then_do_Inr_iff error_response_def split: sum.splits)

lemma validate_youtube_link_shape:
  "validate_youtube_link ydl_info link \<noteq>
     Inr (JsonResponse (PDict ((''song_options'', x) # rest)) st)"
  by (auto simp: validate_youtube_link_def then_do_Inr_iff try_except_Inr_iff error_response_def)

lemma validate_song_name_options:
  assumes "validate_song_name repr ydl_search name page =
             Inr (JsonResponse (PDict ((''song_options'', PList opts) # rest)) st)"
  shows "\<exists>results has_more entries.
           search_youtube_songs repr ydl_search name page = Inr (results, has_more)
         \<and> py_iter results = Inr entries
         \<and> map_result song_option entries = Inr opts
         \<and> rest = [(''has_more'', PBool has_more)] \<and> st = 200"
  using assms unfolding validate_song_name_def then_do_Inr_iff
  by (auto simp: then_do_Inr_iff error_response_def split: if_splits)


lemma map_result_member:
  "map_result f xs = Inr ys \<Longrightarrow> y \<in> set ys \<Longrightarrow> \<exists>x\<in>set xs. f x = Inr y"
proof (induction xs arbitrary: ys)
  case Nil
  then show ?case by simp
next
  case (Cons x xs)
  from Cons.prems(1) obtain y' ys' where
    *: "f x = Inr y'" "map_result f xs = Inr ys'" "ys = y' # ys'"
    by (auto simp: then_do_Inr_iff)
  show ?case
  proof (cases "y = y'")
    case True
    with * show ?thesis by simp
  next
    case False
    with Cons.prems(2) * have "y \<in> set ys'" by simp
    from Cons.IH [OF *(2) this] show ?thesis by auto
  qed
qed

lemma validate_song_options:
  assumes "validate_song repr sp_track ydl_info ydl_search data =
             Inr (JsonResponse (PDict ((''song_options'', PList opts) # rest)) st)"
  shows "\<exists>name page. validate_song_name repr ydl_search name page =
             Inr (JsonResponse (PDict ((''song_options'', PList opts) # rest)) st)"
proof (cases data)
  case (PDict kvs)
  show ?thesis
    using assms validate_spotify_link_shape validate_youtube_link_shape
    unfolding PDict validate_song_def
    by (auto simp: then_do_def error_response_def split: if_splits)
qed (use assms in \<open>simp_all add: validate_song_def then_do_def\<close>)


text \<open>
  Claim C9. In every answer of \<^verbatim>\<open>/validate_song\<close> that carries \<open>song_options\<close>,
  each option has a \<open>preview_url\<close> and a \<open>youtube_link\<close> field and the two are
  equal: both are the entry's \<open>url\<close>.
\<close>

theorem song_option_preview_url_is_youtube_link:
  assumes "validate_song repr sp_track ydl_info ydl_search data =
             Inr (JsonResponse (PDict ((''song_options'', PList opts) # rest)) st)"
  shows "\<forall>opt\<in>set opts. \<exists>url.
           py_item opt ''preview_url'' = Inr url \<and> py_item opt ''youtube_link'' = Inr url"
proof
  fix opt assume opt: "opt \<in> set opts"
  from validate_song_options [OF assms] obtain name page where
    "validate_song_name repr ydl_search name page =
       Inr (JsonResponse (PDict ((''song_options'', PList opts) # rest)) st)"
    by blast
  from validate_song_name_options [OF this] obtain entries where
    "map_result song_option entries = Inr opts" by blast
  from map_result_member [OF this opt] obtain entry where
    "song_option entry = Inr opt" by blast
  then show "\<exists>url. py_item opt ''preview_url'' = Inr url \<and> py_item opt ''youtube_link'' = Inr url"
    by (rule song_option_links)
qed

lemma example_search_page2:
  "validate_song example_repr example_sp_track example_ydl_info example_ydl_search
     (PDict [(''song_name'', PStr ''abc''), (''page'', PInt 2)]) =
   Inr (JsonResponse (PDict [(''song_options'', PList
          [PDict [(''full_name'', PStr ''Title f''), (''preview_image'', PStr ''http://img/f''),
                  (''youtube_link'', PStr ''https://youtu.be/f''), (''duration'', PInt 180),
                  (''preview_url'', PStr ''https://youtu.be/f'')],
           PDict [(''full_name'', PStr ''Title g''), (''preview_image'', PStr ''http://img/g''),
                  (''youtube_link'', PStr ''https://youtu.be/g''), (''duration'', PInt 180),
                  (''preview_url'', PStr ''https://youtu.be/g'')]]),
        (''has_more'', PBool False)]) 200)"
  by (simp add: validate_song_def validate_song_name_def search_youtube_songs_def
      example_ydl_search_def example_entry_def song_option_def then_do_def
      py_str_int_def decimal.simps digit_char_def slice_list_def slice_bound_def)

subsection \<open>The window of the free-text search\<close>

lemma slice_list_window_length: "length (slice_list xs a (a + 5)) \<le> 5"
  by (auto simp: slice_list_def slice_bound_def Let_def)

lemma slice_list_page:
  assumes "0 \<le> a"
  shows "slice_list xs a (a + 5) = take 5 (drop (nat a) xs)"
proof (cases "nat a < length xs")
  case True
  with assms have "slice_bound (length xs) a = nat a"
    and "slice_bound (length xs) (a + 5) - nat a = min (length xs - nat a) 5"
    by (auto simp: slice_bound_def)
  then show ?thesis
    by (simp add: slice_list_def Let_def min_def)
next
  case False
  with assms show ?thesis
    by (simp add: slice_list_def slice_bound_def Let_def)
qed

lemma search_youtube_songs_page:
  assumes "ydl_search (''ytsearch'' @ py_str_int (5 * page) @ '':'' @ py_format repr song_name)
             = Inr search_result"
    and "py_item search_result ''entries'' = Inr (PList es)"
  shows "search_youtube_songs repr ydl_search song_name (PInt page) =
           Inr (PList (slice_list es ((page - 1) * 5) (page * 5)), int (length es) > page * 5)"
proof -
  from assms(2) obtain kvs where sr: "search_result = PDict kvs"
    and e: "map_of kvs ''entries'' = Some (PList es)"
    by (cases search_result) (auto split: option.splits)
  have w: "(page - 1) * 5 + 5 = page * 5" by simp
  show ?thesis
    using assms(1) e unfolding search_youtube_songs_def sr
    by (simp add: then_do_def Let_def w)
qed

lemma search_youtube_songs_length:
  assumes "search_youtube_songs repr ydl_search song_name page = Inr (results, has_more)"
    and "py_iter results = Inr entries"
  shows "length entries \<le> 5"
proof -
  from assms(1) have "results = PList [] \<or>
      (\<exists>all_entries a. py_slice all_entries a (a + 5) = Inr results)"
    unfolding search_youtube_songs_def then_do_Inr_iff
    by (auto simp: Let_def then_do_Inr_iff split: if_splits)
  then show ?thesis
  proof
    assume "results = PList []"
    with assms(2) show ?thesis by simp
  next
    assume "\<exists>all_entries a. py_slice all_entries a (a + 5) = Inr results"
    then obtain all_entries a where s: "py_slice all_entries a (a + 5) = Inr results"
      by blast
    show ?thesis
      using s assms(2)
      by (cases all_entries) (auto simp: slice_list_window_length)
  qed
qed


lemma map_result_length: "map_result f xs = Inr ys \<Longrightarrow> length ys = length xs"
  by (drule map_result_Inr) (simp add: list_all2_lengthD)

lemma validate_song_name_page:
  assumes "search_youtube_songs repr ydl_search song_name page = Inr (PList window, has_more)"
  shows "validate_song_name repr ydl_search song_name page =
           (if window = [] then Inr (error_response ''No valid song link or name provided'' 400)
            else then_do (map_result song_option window) (\<lambda>song_options.
                   Inr (JsonResponse (PDict [(''song_options'', PList song_options),
                                             (''has_more'', PBool has_more)]) 200)))"
  using assms by (simp add: validate_song_name_def then_do_def)

text \<open>
  Claim C4. For a query and an integer page, the free-text search asks the
  extraction tool for \<open>5 * page\<close> results (the query string is
  \<^verbatim>\<open>ytsearch\<close>, the number, a colon and the song name). When the tool answers
  with a list \<open>es\<close> of entries, the search returns the Python slice of \<open>es\<close> from
  \<open>(page - 1) * 5\<close> to \<open>page * 5\<close>, which for \<open>page \<ge> 1\<close> is the five entries
  after the first \<open>(page - 1) * 5\<close>, and \<open>has_more\<close> is true exactly when \<open>es\<close>
  has more than \<open>page * 5\<close> entries; the handler maps this window to
  \<open>song_options\<close> and passes \<open>has_more\<close> on. Whatever the request and the
  collaborators are, an answer with \<open>song_options\<close> has at most 5 of them.
\<close>

theorem free_text_search_window:
  "(ydl_search (''ytsearch'' @ py_str_int (5 * page) @ '':'' @ py_format repr song_name)
       = Inr search_result
     \<and> py_item search_result ''entries'' = Inr (PList es)
    \<longrightarrow> search_youtube_songs repr ydl_search song_name (PInt page) =
          Inr (PList (slice_list es ((page - 1) * 5) (page * 5)), int (length es) > page * 5)
      \<and> (1 \<le> page \<longrightarrow>
           slice_list es ((page - 1) * 5) (page * 5) = take 5 (drop (nat ((page - 1) * 5)) es))
      \<and> validate_song_name repr ydl_search song_name (PInt page) =
          (if slice_list es ((page - 1) * 5) (page * 5) = []
           then Inr (error_response ''No valid song link or name provided'' 400)
           else then_do (map_result song_option (slice_list es ((page - 1) * 5) (page * 5)))
                  (\<lambda>song_options.
                   Inr (JsonResponse (PDict [(''song_options'', PList song_options),
                          (''has_more'', PBool (int (length es) > page * 5))]) 200))))
   \<and> (validate_song repr' sp_track ydl_info ydl_search' data =
         Inr (JsonResponse (PDict ((''song_options'', PList opts) # rest)) st)
    \<longrightarrow> length opts \<le> 5)"
proof (intro conjI impI)
  assume h: "ydl_search (''ytsearch'' @ py_str_int (5 * page) @ '':'' @ py_format repr song_name)
       = Inr search_result
     \<and> py_item search_result ''entries'' = Inr (PList es)"
  then show s: "search_youtube_songs repr ydl_search song_name (PInt page) =
          Inr (PList (slice_list es ((page - 1) * 5) (page * 5)), int (length es) > page * 5)"
    by (simp add: search_youtube_songs_page)
  show "validate_song_name repr ydl_search song_name (PInt page) =
          (if slice_list es ((page - 1) * 5) (page * 5) = []
           then Inr (error_response ''No valid song link or name provided'' 400)
           else then_do (map_result song_option (slice_list es ((page - 1) * 5) (page * 5)))
                  (\<lambda>song_options.
                   Inr (JsonResponse (PDict [(''song_options'', PList song_options),
                          (''has_more'', PBool (int (length es) > page * 5))]) 200)))"
    by (rule validate_song_name_page [OF s])
next
  assume "1 \<le> page"
  then have "0 \<le> (page - 1) * 5" by simp
  from slice_list_page [OF this, of es]
  show "slice_list es ((page - 1) * 5) (page * 5) = take 5 (drop (nat ((page - 1) * 5)) es)"
    by (simp add: algebra_simps)
next
  assume "validate_song repr' sp_track ydl_info ydl_search' data =
         Inr (JsonResponse (PDict ((''song_options'', PList opts) # rest)) st)"
  from validate_song_options [OF this] obtain name p where
    "validate_song_name repr' ydl_search' name p =
       Inr (JsonResponse (PDict ((''song_options'', PList opts) # rest)) st)"
    by blast
  from validate_song_name_options [OF this] obtain results has_more entries where
    s: "search_youtube_songs repr' ydl_search' name p = Inr (results, has_more)" and
    i: "py_iter results = Inr entries" and
    m: "map_result song_option entries = Inr opts"
    by blast
  from search_youtube_songs_length [OF s i] map_result_length [OF m]
  show "length opts \<le> 5" by simp
qed

text \<open>
  The list \<open>es\<close> is the answer to a request for \<open>5 * page\<close> results: a tool that
  returns no more than it was asked for makes \<open>has_more\<close> false.
\<close>

lemma has_more_false_when_limit_honoured:
  assumes "ydl_search (''ytsearch'' @ py_str_int (5 * page) @ '':'' @ py_format repr song_name)
             = Inr search_result"
    and "py_item search_result ''entries'' = Inr (PList es)"
    and "int (length es) \<le> 5 * page"
  shows "search_youtube_songs repr ydl_search song_name (PInt page) =
           Inr (PList (slice_list es ((page - 1) * 5) (page * 5)), False)"
proof -
  have "search_youtube_songs repr ydl_search song_name (PInt page) =
          Inr (PList (slice_list es ((page - 1) * 5) (page * 5)), int (length es) > page * 5)"
    using assms(1,2) by (rule search_youtube_songs_page)
  with assms(3) show ?thesis by simp
qed

theorem no_input_is_missing_input_error_witness:
  "map_of [(''page'', PInt 3)] ''spotify_link'' = None
   \<and> map_of [(''page'', PInt 3)] ''youtube_link'' = None
   \<and> map_of [(''page'', PInt 3)] ''song_name'' = None
   \<and> validate_song example_repr example_sp_track example_ydl_info example_ydl_search
        (PDict [(''page'', PInt 3)]) =
       Inr (JsonResponse (PDict [(''error'', PStr ''No valid song link or name provided'')]) 400)"
  using no_input_is_missing_input_error [of "[(''page'', PInt 3)]"
      example_repr example_sp_track example_ydl_info example_ydl_search]
  by simp

lemma example_validate_spotify:
  "validate_spotify_link example_sp_track (PStr ''spotify:track:1'') = Inl KeyError"
  by (simp add: validate_spotify_link_def example_track_info then_do_def)

lemma example_validate_youtube:
  "validate_youtube_link example_ydl_info (PStr ''https://youtu.be/v1'') =
     Inr (JsonResponse
            (PDict [(''full_name'', PStr ''Video''), (''preview_image'', PStr ''http://img/v1''),
                    (''duration'', PInt 200), (''preview_url'', PStr ''http://stream/v1''),
                    (''source'', PStr ''youtube'')]) 200)"
  by (simp add: validate_youtube_link_def example_ydl_info_def then_do_def try_except_def)

theorem validate_song_priority_witness:
  "py_get (PDict [(''spotify_link'', PStr ''spotify:track:1''),
                  (''youtube_link'', PStr ''https://youtu.be/v1''),
                  (''song_name'', PStr ''abc'')]) ''spotify_link'' PNone
     = Inr (PStr ''spotify:track:1'')
   \<and> py_truthy (PStr ''spotify:track:1'')
   \<and> py_get (PDict [(''spotify_link'', PStr ''spotify:track:1'')]) ''spotify_link'' PNone
     = Inr (PStr ''spotify:track:1'')
   \<and> validate_song example_repr example_sp_track example_ydl_info example_ydl_search
        (PDict [(''spotify_link'', PStr ''spotify:track:1''),
                (''youtube_link'', PStr ''https://youtu.be/v1''),
                (''song_name'', PStr ''abc'')])
     = validate_spotify_link example_sp_track (PStr ''spotify:track:1'')
   \<and> validate_song example_repr example_sp_track example_ydl_info example_ydl_search
        (PDict [(''spotify_link'', PStr ''spotify:track:1'')])
     = validate_song example_repr example_sp_track example_ydl_info example_ydl_search
        (PDict [(''spotify_link'', PStr ''spotify:track:1''),
                (''youtube_link'', PStr ''https://youtu.be/v1''),
                (''song_name'', PStr ''abc'')])
   \<and> py_get (PDict [(''youtube_link'', PStr ''https://youtu.be/v1''),
                  (''song_name'', PStr ''abc'')]) ''spotify_link'' PNone = Inr PNone
   \<and> \<not> py_truthy PNone
   \<and> py_get (PDict [(''spotify_link'', PStr []),
                  (''youtube_link'', PStr ''https://youtu.be/v1'')]) ''spotify_link'' PNone
     = Inr (PStr [])
   \<and> \<not> py_truthy (PStr [])
   \<and> py_get (PDict [(''youtube_link'', PStr ''https://youtu.be/v1''),
                  (''song_name'', PStr ''abc'')]) ''youtube_link'' PNone
     = Inr (PStr ''https://youtu.be/v1'')
   \<and> py_truthy (PStr ''https://youtu.be/v1'')
   \<and> py_get (PDict [(''spotify_link'', PStr []),
                  (''youtube_link'', PStr ''https://youtu.be/v1'')]) ''youtube_link'' PNone
     = Inr (PStr ''https://youtu.be/v1'')
   \<and> validate_song example_repr example_sp_track example_ydl_info example_ydl_search
        (PDict [(''youtube_link'', PStr ''https://youtu.be/v1''), (''song_name'', PStr ''abc'')])
     = Inr (JsonResponse
            (PDict [(''full_name'', PStr ''Video''), (''preview_image'', PStr ''http://img/v1''),
                    (''duration'', PInt 200), (''preview_url'', PStr ''http://stream/v1''),
                    (''source'', PStr ''youtube'')]) 200)
   \<and> validate_song example_repr example_sp_track example_ydl_info example_ydl_search
        (PDict [(''spotify_link'', PStr []), (''youtube_link'', PStr ''https://youtu.be/v1'')])
     = validate_song example_repr example_sp_track example_ydl_info example_ydl_search
        (PDict [(''youtube_link'', PStr ''https://youtu.be/v1''), (''song_name'', PStr ''abc'')])"
  using validate_song_priority [where
      data = "PDict [(''spotify_link'', PStr ''spotify:track:1''),
              (''youtube_link'', PStr ''https://youtu.be/v1''),
              (''song_name'', PStr ''abc'')]"
      and link = "PStr ''spotify:track:1''"
      and data' = "PDict [(''spotify_link'', PStr ''spotify:track:1'')]"
      and repr = example_repr and sp_track = example_sp_track
      and ydl_info = example_ydl_info and ydl_search = example_ydl_search
      and repr' = example_repr and ydl_info' = example_ydl_info
      and ydl_search' = example_ydl_search
      and s = PNone and s' = PNone and sp_track' = example_sp_track]
    validate_song_priority [where
      data = "PDict [(''youtube_link'', PStr ''https://youtu.be/v1''), (''song_name'', PStr ''abc'')]"
      and link = "PStr ''https://youtu.be/v1''"
      and data' = "PDict [(''spotify_link'', PStr []), (''youtube_link'', PStr ''https://youtu.be/v1'')]"
      and repr = example_repr and sp_track = example_sp_track
      and ydl_info = example_ydl_info and ydl_search = example_ydl_search
      and repr' = example_repr and ydl_info' = example_ydl_info
      and ydl_search' = example_ydl_search
      and s = PNone and s' = "PStr []" and sp_track' = example_sp_track]
    example_validate_youtube
  by simp

theorem song_option_preview_url_is_youtube_link_witness:
  "validate_song example_repr example_sp_track example_ydl_info example_ydl_search
     (PDict [(''song_name'', PStr ''abc''), (''page'', PInt 2)]) =
   Inr (JsonResponse (PDict [(''song_options'', PList
          [PDict [(''full_name'', PStr ''Title f''), (''preview_image'', PStr ''http://img/f''),
                  (''youtube_link'', PStr ''https://youtu.be/f''), (''duration'', PInt 180),
                  (''preview_url'', PStr ''https://youtu.be/f'')],
           PDict [(''full_name'', PStr ''Title g''), (''preview_image'', PStr ''http://img/g''),
                  (''youtube_link'', PStr ''https://youtu.be/g''), (''duration'', PInt 180),
                  (''preview_url'', PStr ''https://youtu.be/g'')]]),
        (''has_more'', PBool False)]) 200)
   \<and> (\<exists>url. py_item (PDict [(''full_name'', PStr ''Title f''), (''preview_image'', PStr ''http://img/f''),
                  (''youtube_link'', PStr ''https://youtu.be/f''), (''duration'', PInt 180),
                  (''preview_url'', PStr ''https://youtu.be/f'')]) ''preview_url'' = Inr url
          \<and> py_item (PDict [(''full_name'', PStr ''Title f''), (''preview_image'', PStr ''http://img/f''),
                  (''youtube_link'', PStr ''https://youtu.be/f''), (''duration'', PInt 180),
                  (''preview_url'', PStr ''https://youtu.be/f'')]) ''youtube_link'' = Inr url)"
  using song_option_preview_url_is_youtube_link [OF example_search_page2] example_search_page2
  by simp

lemma example_search_result:
  "example_ydl_search (''ytsearch'' @ py_str_int (5 * 2) @ '':'' @ py_format example_repr (PStr ''abc''))
     = Inr (PDict [(''entries'', PList (map example_entry
                  [''a'', ''b'', ''c'', ''d'', ''e'', ''f'', ''g'']))])"
  by (simp add: example_ydl_search_def py_str_int_def decimal.simps digit_char_def)

theorem free_text_search_window_witness:
  "example_ydl_search (''ytsearch'' @ py_str_int (5 * 2) @ '':'' @ py_format example_repr (PStr ''abc''))
     = Inr (PDict [(''entries'', PList (map example_entry
                  [''a'', ''b'', ''c'', ''d'', ''e'', ''f'', ''g'']))])
   \<and> py_item (PDict [(''entries'', PList (map example_entry
                  [''a'', ''b'', ''c'', ''d'', ''e'', ''f'', ''g'']))]) ''entries''
     = Inr (PList (map example_entry [''a'', ''b'', ''c'', ''d'', ''e'', ''f'', ''g'']))
   \<and> search_youtube_songs example_repr example_ydl_search (PStr ''abc'') (PInt 2)
     = Inr (PList [example_entry ''f'', example_entry ''g''], False)
   \<and> (1::int) \<le> 2
   \<and> take 5 (drop (nat ((2 - 1) * 5))
         (map example_entry [''a'', ''b'', ''c'', ''d'', ''e'', ''f'', ''g'']))
     = [example_entry ''f'', example_entry ''g'']
   \<and> validate_song example_repr example_sp_track example_ydl_info example_ydl_search
     (PDict [(''song_name'', PStr ''abc''), (''page'', PInt 2)]) =
   Inr (JsonResponse (PDict [(''song_options'', PList
          [PDict [(''full_name'', PStr ''Title f''), (''preview_image'', PStr ''http://img/f''),
                  (''youtube_link'', PStr ''https://youtu.be/f''), (''duration'', PInt 180),
                  (''preview_url'', PStr ''https://youtu.be/f'')],
           PDict [(''full_name'', PStr ''Title g''), (''preview_image'', PStr ''http://img/g''),
                  (''youtube_link'', PStr ''https://youtu.be/g''), (''duration'', PInt 180),
                  (''preview_url'', PStr ''https://youtu.be/g'')]]),
        (''has_more'', PBool False)]) 200)
   \<and> length [PDict [(''full_name'', PStr ''Title f''), (''preview_image'', PStr ''http://img/f''),
                  (''youtube_link'', PStr ''https://youtu.be/f''), (''duration'', PInt 180),
                  (''preview_url'', PStr ''https://youtu.be/f'')],
           PDict [(''full_name'', PStr ''Title g''), (''preview_image'', PStr ''http://img/g''),
                  (''youtube_link'', PStr ''https://youtu.be/g''), (''duration'', PInt 180),
                  (''preview_url'', PStr ''https://youtu.be/g'')]] \<le> (5::nat)"
proof -
  have w: "slice_list (map example_entry [''a'', ''b'', ''c'', ''d'', ''e'', ''f'', ''g''])
             ((2 - 1) * 5) (2 * 5) = [example_entry ''f'', example_entry ''g'']"
    by (simp add: slice_list_def slice_bound_def)
  from free_text_search_window [where ydl_search = example_ydl_search and page = 2
      and repr = example_repr and song_name = "PStr ''abc''"
      and search_result = "PDict [(''entries'', PList (map example_entry
                  [''a'', ''b'', ''c'', ''d'', ''e'', ''f'', ''g'']))]"
      and es = "map example_entry [''a'', ''b'', ''c'', ''d'', ''e'', ''f'', ''g'']"
      and repr' = example_repr and sp_track = example_sp_track and ydl_info = example_ydl_info
      and ydl_search' = example_ydl_search
      and data = "PDict [(''song_name'', PStr ''abc''), (''page'', PInt 2)]"]
    example_search_result example_search_page2 w
  show ?thesis by simp
qed

subsection \<open>File delivery: confinement to the download directory\<close>

lemma normpath_comps_keeps_dotdot:
  "new_comps \<noteq> [] \<Longrightarrow> hd new_comps = ''..'' \<Longrightarrow>
     normpath_comps False comps new_comps \<noteq> [] \<and> hd (normpath_comps False comps new_comps) = ''..''"
proof (induction comps arbitrary: new_comps)
  case Nil
  then show ?case by simp
next
  case (Cons c comps)
  have app: "new_comps @ [c] \<noteq> []" "hd (new_comps @ [c]) = ''..''"
    using Cons.prems by simp_all
  have but: "butlast new_comps \<noteq> [] \<and> hd (butlast new_comps) = ''..''"
    if "last new_comps \<noteq> ''..''"
  proof (cases new_comps)
    case Nil
    with Cons.prems show ?thesis by simp
  next
    case (Cons x xs)
    with Cons.prems that have "xs \<noteq> []" by auto
    with Cons Cons.prems show ?thesis by simp
  qed
  show ?case
    using Cons.IH [OF app] Cons.IH [of new_comps] Cons.IH [of "butlast new_comps"] Cons.prems but
    by auto
qed

lemma normpath_comps_climbs:
  "''..'' \<notin> set new_comps \<Longrightarrow> climbs_out (length new_comps) comps \<Longrightarrow>
     normpath_comps False comps new_comps \<noteq> [] \<and> hd (normpath_comps False comps new_comps) = ''..''"
proof (induction comps arbitrary: new_comps)
  case Nil
  then show ?case by simp
next
  case (Cons c comps)
  show ?case
  proof (cases "c = [] \<or> c = ''.''")
    case True
    with Cons show ?thesis by auto
  next
    case skip: False
    show ?thesis
    proof (cases "c = ''..''")
      case False
      with skip Cons.prems have "''..'' \<notin> set (new_comps @ [c])"
        and "climbs_out (length (new_comps @ [c])) comps" by auto
      from Cons.IH [OF this] skip False show ?thesis by simp
    next
      case True
      show ?thesis
      proof (cases new_comps)
        case Nil
        have "normpath_comps False comps [''..''] \<noteq> []
              \<and> hd (normpath_comps False comps [''..'']) = ''..''"
          by (rule normpath_comps_keeps_dotdot) simp_all
        with True Nil show ?thesis by simp
      next
        case (Cons x xs)
        with Cons.prems(1) have l: "last new_comps \<noteq> ''..''"
          by (metis last_in_set list.distinct(1))
        from Cons Cons.prems True have "''..'' \<notin> set (butlast new_comps)"
          and "climbs_out (length (butlast new_comps)) comps"
          by (auto dest: in_set_butlastD)
        from Cons.IH [OF this] True l Cons show ?thesis by simp
      qed
    qed
  qed
qed

lemma join_sep_dotdot:
  assumes "comps \<noteq> []" and "hd comps = ''..''"
  shows "join_sep comps = ''..'' \<or> take 3 (join_sep comps) = ''../''"
proof (cases comps)
  case Nil
  with assms show ?thesis by simp
next
  case (Cons c rest)
  with assms have c: "c = ''..''" by simp
  show ?thesis
    by (cases rest) (simp_all add: Cons c)
qed

lemma normpath_relative_climbs:
  assumes "\<not> isabs filename" and "climbs_out 0 (split_on CHR ''/'' filename)"
  shows "normpath filename = ''..'' \<or> take 3 (normpath filename) = ''../''"
proof -
  from assms(2) have ne: "filename \<noteq> []" by (cases filename) auto
  let ?r = "normpath_comps False (split_on CHR ''/'' filename) []"
  from normpath_comps_climbs [of "[]" "split_on CHR ''/'' filename"] assms(2)
  have r: "?r \<noteq> []" "hd ?r = ''..''" by simp_all
  from assms(1) ne have n: "normpath filename = (if join_sep ?r = [] then ''.'' else join_sep ?r)"
    by (simp add: normpath_def isabs_def Let_def)
  from join_sep_dotdot [OF r] have j: "join_sep ?r = ''..'' \<or> take 3 (join_sep ?r) = ''../''" .
  then have "join_sep ?r \<noteq> []" by auto
  with n j show ?thesis by simp
qed

lemma normpath_absolute:
  assumes "isabs filename"
  shows "isabs (normpath filename)"
proof -
  from assms obtain rest where f: "filename = CHR ''/'' # rest"
    by (cases filename) (auto simp: isabs_def)
  show ?thesis
    unfolding f normpath_def isabs_def Let_def by auto
qed

lemma safe_join_rejects_escapes:
  assumes "escapes filename"
  shows "safe_join directory filename = None"
proof (cases "isabs filename")
  case True
  then have "filename \<noteq> []" by (auto simp: isabs_def)
  with normpath_absolute [OF True] show ?thesis
    by (simp add: safe_join_def Let_def)
next
  case False
  with assms have c: "climbs_out 0 (split_on CHR ''/'' filename)"
    by (simp add: escapes_def)
  then have "filename \<noteq> []" by (cases filename) auto
  with normpath_relative_climbs [OF False c] show ?thesis
    by (auto simp: safe_join_def Let_def)
qed

text \<open>
  Claim C1. A file name escapes the download directory when it is absolute or
  when its components climb above the directory through \<^verbatim>\<open>..\<close>. For every
  such name \<^verbatim>\<open>safe_join\<close> answers \<open>None\<close>, \<^verbatim>\<open>send_file\<close> raises before any
  file-system call, and the handler answers "File not found" with status 404:
  the handler makes no file-system call, the response carries no removal, and
  the request leaves the files as they were.
\<close>

theorem escaping_filename_is_not_found:
  assumes "escapes filename"
  shows "download_file fs filename = (error_response ''File not found'' 404, [])
     \<and> serve_download fs filename outcome =
         (JsonResponse (PDict [(''error'', PStr ''File not found'')]) 404, [Transfer outcome], fs)"
  using safe_join_rejects_escapes [OF assms, of DOWNLOAD_FOLDER]
  by (simp add: download_file_def serve_download_def send_file_def error_response_def
      closing_calls_def)

lemma example_escapes: "escapes ''../../etc/passwd''"
  by (simp add: escapes_def isabs_def)

theorem escaping_filename_is_not_found_witness:
  "escapes ''../../etc/passwd''
   \<and> download_file (Map.empty(''downloads/a.mp3'' \<mapsto> ''ID3'')) ''../../etc/passwd'' =
       (JsonResponse (PDict [(''error'', PStr ''File not found'')]) 404, [])
   \<and> serve_download (Map.empty(''downloads/a.mp3'' \<mapsto> ''ID3'')) ''../../etc/passwd'' Completed =
       (JsonResponse (PDict [(''error'', PStr ''File not found'')]) 404, [Transfer Completed],
        Map.empty(''downloads/a.mp3'' \<mapsto> ''ID3''))"
  using escaping_filename_is_not_found [OF example_escapes,
      of "Map.empty(''downloads/a.mp3'' \<mapsto> ''ID3'')" Completed]
    example_escapes
  by (simp add: error_response_def)

subsection \<open>File delivery: the removal registered on the response\<close>

lemma download_file_FileResponse:
  assumes "download_file fs filename = (FileResponse p content callbacks, ops)"
  shows "safe_join DOWNLOAD_FOLDER filename = Some p \<and> fs p = Some content
         \<and> ops = [Open p] \<and> callbacks = [Remove (Some p)]"
  using assms
  by (auto simp: download_file_def send_file_def error_response_def Let_def
      split: option.splits)

text \<open>
  No request changes the files: the handler only opens, and the removal it
  registers sits on a response whose callbacks the server never reaches.
\<close>

lemma serve_download_keeps_files:
  "snd (snd (serve_download fs filename outcome)) = fs"
proof (cases "download_file fs filename")
  case (Pair response ops)
  have "closing_calls response = []"
    by (cases response) (simp_all add: closing_calls_def)
  with Pair show ?thesis by (simp add: serve_download_def)
qed

lemma delivered_file_is_delivered_again:
  assumes "download_file fs filename = (FileResponse p content callbacks, ops)"
  shows "serve_download fs filename outcome =
           (FileResponse p content [Remove (Some p)],
            [Handler (Open p), Transfer outcome], fs)"
proof -
  from download_file_FileResponse [OF assms] have
    "ops = [Open p]" and "callbacks = [Remove (Some p)]"
    by simp_all
  with assms show ?thesis
    by (simp add: serve_download_def closing_calls_def)
qed

lemma example_download_file:
  "download_file (Map.empty(''downloads/a.mp3'' \<mapsto> ''ID3'')) ''a.mp3'' =
     (FileResponse ''downloads/a.mp3'' ''ID3'' [Remove (Some ''downloads/a.mp3'')],
      [Open ''downloads/a.mp3''])"
  by (simp add: download_file_def send_file_def safe_join_def DOWNLOAD_FOLDER_def normpath_def
      isabs_def posix_join_def Let_def)

text \<open>
  Claim C5 states that a delivered file is deleted once the transfer is over, so
  that a second request for the same name is answered "File not found". On the
  example the handler delivers the file and registers its removal (line 176:
  "Remove file after download"), but the removal is not among the events of the
  request, whether the transfer completes or the client goes away; the file is
  still there afterwards and the second request delivers it again.
\<close>

theorem delivered_file_is_never_removed:
  "download_file (Map.empty(''downloads/a.mp3'' \<mapsto> ''ID3'')) ''a.mp3'' =
     (FileResponse ''downloads/a.mp3'' ''ID3'' [Remove (Some ''downloads/a.mp3'')],
      [Open ''downloads/a.mp3''])
   \<and> fst (snd (serve_download (Map.empty(''downloads/a.mp3'' \<mapsto> ''ID3'')) ''a.mp3'' Completed)) =
       [Handler (Open ''downloads/a.mp3''), Transfer Completed]
   \<and> fst (snd (serve_download (Map.empty(''downloads/a.mp3'' \<mapsto> ''ID3'')) ''a.mp3'' ClientAbort)) =
       [Handler (Open ''downloads/a.mp3''), Transfer ClientAbort]
   \<and> snd (snd (serve_download (Map.empty(''downloads/a.mp3'' \<mapsto> ''ID3'')) ''a.mp3'' Completed))
         ''downloads/a.mp3'' = Some ''ID3''
   \<and> fst (download_file
         (snd (snd (serve_download (Map.empty(''downloads/a.mp3'' \<mapsto> ''ID3'')) ''a.mp3'' Completed)))
         ''a.mp3'') =
       FileResponse ''downloads/a.mp3'' ''ID3'' [Remove (Some ''downloads/a.mp3'')]"
  using example_download_file
    delivered_file_is_delivered_again [OF example_download_file, of Completed]
    delivered_file_is_delivered_again [OF example_download_file, of ClientAbort]
  by simp

subsection \<open>Catalog links in \<^verbatim>\<open>/validate_song\<close>\<close>

text \<open>
  After a successful \<^verbatim>\<open>get_spotify_track_info\<close> the handler subscripts its
  result with \<open>name\<close>, a key of the catalog's raw answer and not of the mapped
  dictionary (\<open>full_name\<close>, \<open>preview_image\<close>, \<open>duration\<close>, \<open>preview_url\<close>), and
  does so outside the \<^verbatim>\<open>try\<close>.
\<close>

lemma spotify_lookup_success_raises:
  assumes "get_spotify_track_info sp_track link = Inr track_info"
  shows "validate_spotify_link sp_track link = Inl KeyError"
proof -
  from assms obtain name url duration preview_url where
    "track_info = PDict [(''full_name'', name), (''preview_image'', url),
                 (''duration'', duration), (''preview_url'', preview_url)]"
    unfolding get_spotify_track_info_def then_do_Inr_iff by blast
  then have "py_item track_info ''name'' = Inl KeyError" by simp
  with assms show ?thesis
    by (simp add: validate_spotify_link_def then_do_def)
qed

text \<open>
  Claim C2 states that a request with a \<open>spotify_link\<close> whose catalog lookup
  succeeds is answered with status 200 and the mapped metadata. On the example
  catalog the lookup succeeds and the handler raises \<open>KeyError\<close> instead.
\<close>

theorem spotify_link_success_raises_KeyError:
  "get_spotify_track_info example_sp_track (PStr ''spotify:track:1'') =
     Inr (PDict [(''full_name'', PStr ''Song''), (''preview_image'', PStr ''http://img/1''),
                 (''duration'', PInt 215), (''preview_url'', PNone)])
   \<and> validate_song example_repr example_sp_track example_ydl_info example_ydl_search
        (PDict [(''spotify_link'', PStr ''spotify:track:1'')]) = Inl KeyError"
  using example_track_info spotify_lookup_success_raises [OF example_track_info]
  by (simp add: validate_song_def then_do_def)

subsection \<open>Download orchestrator: a failing name\<close>

text \<open>
  Claim C3 states that a name for which the extraction tool fails is skipped and
  the remaining names are still processed. On the example tool, name \<open>b\<close> alone
  is downloaded; with a name before it whose search has no entries
  (\<^verbatim>\<open>info['entries'][0]\<close> raises \<open>IndexError\<close>), or for which the tool raises, the
  exception leaves \<^verbatim>\<open>download_songs\<close> and nothing is returned for \<open>b\<close>.
\<close>

theorem download_songs_failure_aborts_batch:
  "download_songs example_repr example_ydl_download (PDict [(''songs'', PList [PStr ''b''])]) =
     Inr (JsonResponse (PDict [(''downloaded_songs'', PList [PStr ''b song.mp3''])]) 200)
   \<and> download_songs example_repr example_ydl_download
         (PDict [(''songs'', PList [PStr ''a'', PStr ''b''])]) = Inl IndexError
   \<and> download_songs example_repr example_ydl_download
         (PDict [(''songs'', PList [PStr ''c'', PStr ''b''])]) = Inl CollaboratorError"
  by (simp add: download_songs_def search_and_download_song_def example_ydl_download_def
      then_do_def DOWNLOAD_FOLDER_def basename_def)

text \<open>The example tool honours the limit of page 2 (7 entries for 10 asked).\<close>

theorem has_more_false_when_limit_honoured_witness:
  "example_ydl_search (''ytsearch'' @ py_str_int (5 * 2) @ '':'' @ py_format example_repr (PStr ''abc''))
     = Inr (PDict [(''entries'', PList (map example_entry
                  [''a'', ''b'', ''c'', ''d'', ''e'', ''f'', ''g'']))])
   \<and> py_item (PDict [(''entries'', PList (map example_entry
                  [''a'', ''b'', ''c'', ''d'', ''e'', ''f'', ''g'']))]) ''entries''
     = Inr (PList (map example_entry [''a'', ''b'', ''c'', ''d'', ''e'', ''f'', ''g'']))
   \<and> int (length (map example_entry [''a'', ''b'', ''c'', ''d'', ''e'', ''f'', ''g''])) \<le> 5 * 2
   \<and> search_youtube_songs example_repr example_ydl_search (PStr ''abc'') (PInt 2)
     = Inr (PList [example_entry ''f'', example_entry ''g''], False)"
proof -
  have w: "slice_list (map example_entry [''a'', ''b'', ''c'', ''d'', ''e'', ''f'', ''g''])
             ((2 - 1) * 5) (2 * 5) = [example_entry ''f'', example_entry ''g'']"
    by (simp add: slice_list_def slice_bound_def)
  have l: "int (length (map example_entry [''a'', ''b'', ''c'', ''d'', ''e'', ''f'', ''g''])) \<le> 5 * 2"
    by simp
  have i: "py_item (PDict [(''entries'', PList (map example_entry
                  [''a'', ''b'', ''c'', ''d'', ''e'', ''f'', ''g'']))]) ''entries''
     = Inr (PList (map example_entry [''a'', ''b'', ''c'', ''d'', ''e'', ''f'', ''g'']))"
    by simp
  from has_more_false_when_limit_honoured [where ydl_search = example_ydl_search and page = 2
      and repr = example_repr and song_name = "PStr ''abc''"
      and search_result = "PDict [(''entries'', PList (map example_entry
                  [''a'', ''b'', ''c'', ''d'', ''e'', ''f'', ''g'']))]"
      and es = "map example_entry [''a'', ''b'', ''c'', ''d'', ''e'', ''f'', ''g'']"]
    example_search_result i l w
  show ?thesis by simp
qed

end
